theory Spec2Isabelle
  imports Main
begin

section \<open>The call component of src/app/components/WebRTCCall.tsx\<close>

text \<open>
  The source is one React component, \<^verbatim>\<open>WebRTCCall\<close>, and one class,
  \<^verbatim>\<open>PeerConnectionManager\<close>, which drives a browser \<^verbatim>\<open>RTCPeerConnection\<close>.
  The embedding keeps the component's state variables, the manager objects and the peer
  connections in one record. Managers and peer connections are objects that outlive the
  reference the component holds to them (their callbacks keep firing), so both live in a
  store, a list indexed by address; a reference is an address, \<open>null\<close> is \<open>None\<close>.

  Every handler of the source is one function from state to state. An \<^verbatim>\<open>async\<close>
  handler is run to its end in one step; what the browser answers at each \<^verbatim>\<open>await\<close>
  is an input of the step (record \<open>browser\<close>).
\<close>

subsection \<open>Data\<close>

datatype CallStatus =
    Idle
  | Connecting
  | IncomingCall
  | WaitingForAnswer
  | Connected
  | CallEnded
  | MediaAccessDenied
  | CallFailed

type_synonym sdp = string
type_synonym candidate = string
type_synonym MediaStream = "nat list"

record IncomingCallData =
  offer :: sdp
  callerId :: string

text \<open>
  The browser's peer connection, as far as the source uses it. The fields are the
  attributes of the W3C interface; \<open>senders\<close> are the tracks given to \<^verbatim>\<open>addTrack\<close>,
  \<open>remoteCandidates\<close> the candidates \<^verbatim>\<open>addIceCandidate\<close> accepted, in order, and
  \<open>owner\<close> is the manager captured as \<^verbatim>\<open>this\<close> by the three callbacks that
  \<^verbatim>\<open>initPeerConnection\<close> installs on the connection.
\<close>

datatype IceConnectionState =
  IceNew | IceChecking | IceConnected | IceDisconnected | IceFailed | IceClosed

datatype SignalingState = Stable | HaveLocalOffer | HaveRemoteOffer | SignalingClosed

datatype SdpType = Offer | Answer

record RTCPeerConnection =
  signalingState :: SignalingState
  iceConnectionState :: IceConnectionState
  localDescription :: "sdp option"
  remoteDescription :: "sdp option"
  senders :: "nat list"
  remoteCandidates :: "candidate list"
  owner :: nat

record PeerConnectionManager =
  localStream_mgr :: MediaStream
  pc :: "nat option"
  isInitiator :: bool
  remotePeerId :: "string option"

datatype outmsg =
    CallUser "sdp option" string
  | AnswerCallOut "sdp option" string
  | IceCandidateOut candidate string
  | CallEndOut string

text \<open>
  The component: its \<^verbatim>\<open>useState\<close> variables and \<^verbatim>\<open>peerManagerRef\<close>, the two
  stores, and two logs of what leaves the component: \<open>emitted\<close>, every
  \<^verbatim>\<open>socket.emit\<close>, and \<open>statusLog\<close>, every call of \<^verbatim>\<open>setCallStatus\<close>, oldest first.
\<close>

record state =
  currentId :: string
  targetId :: string
  localStream :: "MediaStream option"
  remoteStream :: "MediaStream option"
  callStatus :: CallStatus
  incomingCallData :: "IncomingCallData option"
  peerManagerRef :: "nat option"
  managers :: "PeerConnectionManager list"
  pcs :: "RTCPeerConnection list"
  emitted :: "outmsg list"
  statusLog :: "CallStatus list"

text \<open>
  What the browser answers during one handler: the stream of \<^verbatim>\<open>getUserMedia\<close>
  (\<open>None\<close>: the promise is rejected), the description that \<^verbatim>\<open>createOffer\<close> or
  \<^verbatim>\<open>createAnswer\<close> resolves with (\<open>None\<close>: rejected), and whether the browser accepts
  the description given to \<^verbatim>\<open>setLocalDescription\<close> and the description or candidate
  given to \<^verbatim>\<open>setRemoteDescription\<close> or \<^verbatim>\<open>addIceCandidate\<close> (a malformed one is
  rejected).
\<close>

record browser =
  userMedia :: "MediaStream option"
  description :: "sdp option"
  localAccepted :: bool
  remoteAccepted :: bool

subsection \<open>The browser's RTCPeerConnection\<close>

definition new_RTCPeerConnection :: "nat \<Rightarrow> RTCPeerConnection" where
  "new_RTCPeerConnection m =
     \<lparr>signalingState = Stable, iceConnectionState = IceNew, localDescription = None,
      remoteDescription = None, senders = [], remoteCandidates = [], owner = m\<rparr>"

definition pc_close :: "RTCPeerConnection \<Rightarrow> RTCPeerConnection" where
  "pc_close c = c\<lparr>signalingState := SignalingClosed, iceConnectionState := IceClosed\<rparr>"

definition pc_addTrack :: "nat \<Rightarrow> RTCPeerConnection \<Rightarrow> RTCPeerConnection" where
  "pc_addTrack t c = c\<lparr>senders := senders c @ [t]\<rparr>"

text \<open>
  The promise-returning operations: \<open>None\<close> is a rejected promise. A closed connection
  rejects every one of them; a description is accepted only in the signalling state that
  waits for it; a candidate is rejected while no remote description is set.
\<close>

definition pc_createOffer :: "sdp option \<Rightarrow> RTCPeerConnection \<Rightarrow> sdp option" where
  "pc_createOffer d c = (if signalingState c = SignalingClosed then None else d)"

definition pc_createAnswer :: "sdp option \<Rightarrow> RTCPeerConnection \<Rightarrow> sdp option" where
  "pc_createAnswer d c = (if signalingState c = HaveRemoteOffer then d else None)"

definition pc_setLocalDescription ::
  "bool \<Rightarrow> SdpType \<Rightarrow> sdp \<Rightarrow> RTCPeerConnection \<Rightarrow> RTCPeerConnection option" where
  "pc_setLocalDescription ok ty d c =
     (if \<not> ok then None
      else case ty of
        Offer \<Rightarrow>
          (if signalingState c = Stable \<or> signalingState c = HaveLocalOffer
           then Some (c\<lparr>signalingState := HaveLocalOffer, localDescription := Some d\<rparr>)
           else None)
      | Answer \<Rightarrow>
          (if signalingState c = HaveRemoteOffer
           then Some (c\<lparr>signalingState := Stable, localDescription := Some d\<rparr>)
           else None))"

definition pc_setRemoteDescription ::
  "bool \<Rightarrow> SdpType \<Rightarrow> sdp \<Rightarrow> RTCPeerConnection \<Rightarrow> RTCPeerConnection option" where
  "pc_setRemoteDescription ok ty d c =
     (if \<not> ok then None
      else case ty of
        Offer \<Rightarrow>
          (if signalingState c = Stable \<or> signalingState c = HaveRemoteOffer
           then Some (c\<lparr>signalingState := HaveRemoteOffer, remoteDescription := Some d\<rparr>)
           else None)
      | Answer \<Rightarrow>
          (if signalingState c = HaveLocalOffer
           then Some (c\<lparr>signalingState := Stable, remoteDescription := Some d\<rparr>)
           else None))"

definition pc_addIceCandidate ::
  "bool \<Rightarrow> candidate \<Rightarrow> RTCPeerConnection \<Rightarrow> RTCPeerConnection option" where
  "pc_addIceCandidate ok cand c =
     (if \<not> ok \<or> signalingState c = SignalingClosed \<or> remoteDescription c = None then None
      else Some (c\<lparr>remoteCandidates := remoteCandidates c @ [cand]\<rparr>))"

subsection \<open>Writes that leave the component\<close>

definition setCallStatus :: "CallStatus \<Rightarrow> state \<Rightarrow> state" where
  "setCallStatus st s = s\<lparr>callStatus := st, statusLog := statusLog s @ [st]\<rparr>"

definition emit :: "outmsg \<Rightarrow> state \<Rightarrow> state" where
  "emit msg s = s\<lparr>emitted := emitted s @ [msg]\<rparr>"

definition update_manager ::
  "nat \<Rightarrow> (PeerConnectionManager \<Rightarrow> PeerConnectionManager) \<Rightarrow> state \<Rightarrow> state" where
  "update_manager m f s = s\<lparr>managers := (managers s)[m := f (managers s ! m)]\<rparr>"

definition update_pc ::
  "nat \<Rightarrow> (RTCPeerConnection \<Rightarrow> RTCPeerConnection) \<Rightarrow> state \<Rightarrow> state" where
  "update_pc p f s = s\<lparr>pcs := (pcs s)[p := f (pcs s ! p)]\<rparr>"

text \<open>JavaScript's \<^verbatim>\<open>!x\<close> on a \<^verbatim>\<open>string | null\<close>: true of \<open>null\<close> and of the empty string.\<close>

definition falsy :: "string option \<Rightarrow> bool" where
  "falsy x = (case x of None \<Rightarrow> True | Some v \<Rightarrow> v = [])"

subsection \<open>PeerConnectionManager\<close>

text \<open>The constructor: a manager with no connection yet.\<close>

definition new_PeerConnectionManager :: "MediaStream \<Rightarrow> PeerConnectionManager" where
  "new_PeerConnectionManager stream =
     \<lparr>localStream_mgr = stream, pc = None, isInitiator = False, remotePeerId = None\<rparr>"

text \<open>
  \<^verbatim>\<open>initPeerConnection\<close> of the manager at address \<open>m\<close>: closes the connection this
  manager holds, if it holds one; creates a new one and installs the callbacks (the
  connection's \<open>owner\<close>); writes \<open>Connecting\<close>; adds the local tracks.
\<close>

definition initPeerConnection :: "nat \<Rightarrow> bool \<Rightarrow> string \<Rightarrow> state \<Rightarrow> state" where
  "initPeerConnection m ini remote s =
     (let s1 = update_manager m (\<lambda>g. g\<lparr>isInitiator := ini, remotePeerId := Some remote\<rparr>) s;
          s2 = (case pc (managers s1 ! m) of
                  None \<Rightarrow> s1
                | Some old \<Rightarrow> update_pc old pc_close s1);
          p = length (pcs s2);
          s3 = s2\<lparr>pcs := pcs s2 @ [new_RTCPeerConnection m]\<rparr>;
          s4 = update_manager m (\<lambda>g. g\<lparr>pc := Some p\<rparr>) s3;
          s5 = setCallStatus Connecting s4
      in update_pc p (\<lambda>c. fold pc_addTrack (localStream_mgr (managers s5 ! m)) c) s5)"

definition createOffer :: "nat \<Rightarrow> browser \<Rightarrow> state \<Rightarrow> state" where
  "createOffer m env s =
     (case pc (managers s ! m) of
        None \<Rightarrow> s
      | Some p \<Rightarrow>
          if falsy (remotePeerId (managers s ! m)) then s
          else case pc_createOffer (description env) (pcs s ! p) of
            None \<Rightarrow> setCallStatus CallFailed s
          | Some d \<Rightarrow>
              (case pc_setLocalDescription (localAccepted env) Offer d (pcs s ! p) of
                 None \<Rightarrow> setCallStatus CallFailed s
               | Some c \<Rightarrow>
                   setCallStatus WaitingForAnswer
                     (emit (CallUser (localDescription c) (the (remotePeerId (managers s ! m))))
                        (update_pc p (\<lambda>_. c) s))))"

definition handleOffer :: "nat \<Rightarrow> sdp \<Rightarrow> browser \<Rightarrow> state \<Rightarrow> state" where
  "handleOffer m off env s =
     (case pc (managers s ! m) of
        None \<Rightarrow> s
      | Some p \<Rightarrow>
          if falsy (remotePeerId (managers s ! m)) then s
          else case pc_setRemoteDescription (remoteAccepted env) Offer off (pcs s ! p) of
            None \<Rightarrow> setCallStatus CallFailed s
          | Some c1 \<Rightarrow>
              (let s1 = update_pc p (\<lambda>_. c1) s
               in case pc_createAnswer (description env) c1 of
                 None \<Rightarrow> setCallStatus CallFailed s1
               | Some d \<Rightarrow>
                   (case pc_setLocalDescription (localAccepted env) Answer d c1 of
                      None \<Rightarrow> setCallStatus CallFailed s1
                    | Some c2 \<Rightarrow>
                        setCallStatus Connected
                          (emit (AnswerCallOut (localDescription c2)
                                   (the (remotePeerId (managers s ! m))))
                             (update_pc p (\<lambda>_. c2) s1)))))"

definition handleAnswer :: "nat \<Rightarrow> sdp \<Rightarrow> bool \<Rightarrow> state \<Rightarrow> state" where
  "handleAnswer m ans ok s =
     (case pc (managers s ! m) of
        None \<Rightarrow> s
      | Some p \<Rightarrow>
          (case pc_setRemoteDescription ok Answer ans (pcs s ! p) of
             None \<Rightarrow> setCallStatus CallFailed s
           | Some c \<Rightarrow> update_pc p (\<lambda>_. c) s))"

definition handleIceCandidate :: "nat \<Rightarrow> candidate \<Rightarrow> bool \<Rightarrow> state \<Rightarrow> state" where
  "handleIceCandidate m cand ok s =
     (case pc (managers s ! m) of
        None \<Rightarrow> s
      | Some p \<Rightarrow>
          (case pc_addIceCandidate ok cand (pcs s ! p) of
             None \<Rightarrow> s
           | Some c \<Rightarrow> update_pc p (\<lambda>_. c) s))"

definition close :: "nat \<Rightarrow> state \<Rightarrow> state" where
  "close m s =
     (let s1 = (case pc (managers s ! m) of
                  None \<Rightarrow> s
                | Some p \<Rightarrow> update_manager m (\<lambda>g. g\<lparr>pc := None\<rparr>) (update_pc p pc_close s));
          s2 = update_manager m (\<lambda>g. g\<lparr>remotePeerId := None\<rparr>) s1;
          s3 = setCallStatus Idle s2
      in s3\<lparr>remoteStream := None\<rparr>)"

text \<open>The three callbacks installed by \<^verbatim>\<open>initPeerConnection\<close>, run on the manager \<open>m\<close>.\<close>

definition ontrack :: "nat \<Rightarrow> MediaStream \<Rightarrow> state \<Rightarrow> state" where
  "ontrack m stream s = s\<lparr>remoteStream := Some stream\<rparr>"

definition onicecandidate :: "nat \<Rightarrow> candidate option \<Rightarrow> state \<Rightarrow> state" where
  "onicecandidate m cand s =
     (case cand of
        None \<Rightarrow> s
      | Some c \<Rightarrow>
          if falsy (remotePeerId (managers s ! m)) then s
          else emit (IceCandidateOut c (the (remotePeerId (managers s ! m)))) s)"

definition oniceconnectionstatechange :: "nat \<Rightarrow> state \<Rightarrow> state" where
  "oniceconnectionstatechange m s =
     (case pc (managers s ! m) of
        None \<Rightarrow> s
      | Some p \<Rightarrow>
          if iceConnectionState (pcs s ! p) = IceConnected then setCallStatus Connected s
          else if iceConnectionState (pcs s ! p) = IceDisconnected
                  \<or> iceConnectionState (pcs s ! p) = IceFailed
          then close m (setCallStatus CallEnded s)
          else s)"

subsection \<open>The component WebRTCCall\<close>

definition init :: state where
  "init = \<lparr>currentId = [], targetId = [], localStream = None, remoteStream = None,
           callStatus = Idle, incomingCallData = None, peerManagerRef = None,
           managers = [], pcs = [], emitted = [], statusLog = []\<rparr>"

definition getMedia :: "browser \<Rightarrow> state \<Rightarrow> state \<times> MediaStream option" where
  "getMedia env s =
     (case userMedia env of
        Some stream \<Rightarrow> (s\<lparr>localStream := Some stream\<rparr>, Some stream)
      | None \<Rightarrow> (setCallStatus MediaAccessDenied s, None))"

text \<open>\<^verbatim>\<open>localStream || await getMedia()\<close>\<close>

definition stream_or_getMedia :: "browser \<Rightarrow> state \<Rightarrow> state \<times> MediaStream option" where
  "stream_or_getMedia env s =
     (case localStream s of
        Some stream \<Rightarrow> (s, Some stream)
      | None \<Rightarrow> getMedia env s)"

text \<open>
  \<^verbatim>\<open>new PeerConnectionManager(...)\<close> followed by \<^verbatim>\<open>peerManagerRef.current = manager\<close>:
  the new manager gets the next free address; the manager referenced before is not touched.
\<close>

definition install_manager :: "MediaStream \<Rightarrow> state \<Rightarrow> state" where
  "install_manager stream s =
     s\<lparr>managers := managers s @ [new_PeerConnectionManager stream],
       peerManagerRef := Some (length (managers s))\<rparr>"

definition startCall :: "browser \<Rightarrow> state \<Rightarrow> state" where
  "startCall env s =
     (if targetId s = [] then setCallStatus Idle s
      else if callStatus s = Connected \<or> callStatus s = WaitingForAnswer then s
      else case stream_or_getMedia env s of
        (s1, None) \<Rightarrow> s1
      | (s1, Some stream) \<Rightarrow>
          (let m = length (managers s1);
               s2 = install_manager stream s1;
               s3 = initPeerConnection m True (targetId s) s2
           in createOffer m env s3))"

definition answerCall :: "browser \<Rightarrow> state \<Rightarrow> state" where
  "answerCall env s =
     (case incomingCallData s of
        None \<Rightarrow> s
      | Some inc \<Rightarrow>
          if callStatus s \<noteq> IncomingCall then s
          else case stream_or_getMedia env s of
            (s1, None) \<Rightarrow> s1
          | (s1, Some stream) \<Rightarrow>
              (let m = length (managers s1);
                   s2 = install_manager stream s1;
                   s3 = initPeerConnection m False (callerId inc) s2;
                   s4 = handleOffer m (offer inc) env s3
               in s4\<lparr>incomingCallData := None\<rparr>))"

text \<open>The Reject button: \<^verbatim>\<open>setIncomingCallData(null); setCallStatus('Idle')\<close>.\<close>

definition rejectCall :: "state \<Rightarrow> state" where
  "rejectCall s = setCallStatus Idle (s\<lparr>incomingCallData := None\<rparr>)"

definition endCall :: "state \<Rightarrow> state" where
  "endCall s =
     (let s1 = (case peerManagerRef s of
                  None \<Rightarrow> s
                | Some m \<Rightarrow> (close m s)\<lparr>peerManagerRef := None\<rparr>);
          peerId = (if targetId s \<noteq> [] then Some (targetId s)
                    else map_option callerId (incomingCallData s));
          s2 = (if falsy peerId then s1 else emit (CallEndOut (the peerId)) s1);
          s3 = setCallStatus CallEnded s2
      in s3\<lparr>remoteStream := None, targetId := [], incomingCallData := None\<rparr>)"

text \<open>
  Messages the relay can deliver. The component registers a handler for \<^verbatim>\<open>me\<close>,
  \<^verbatim>\<open>call-made\<close>, \<^verbatim>\<open>answer-made\<close> and \<^verbatim>\<open>ice-candidate\<close>, and for nothing else:
  \<open>CallEnd\<close>, the end-of-call message of the remote peer, has none.
\<close>

datatype inbound =
    Me string
  | CallMade sdp string
  | AnswerMade sdp
  | IceCandidateMsg "candidate option"
  | CallEnd

fun socket_on :: "inbound \<Rightarrow> bool \<Rightarrow> state \<Rightarrow> state" where
  "socket_on (Me i) ok s = s\<lparr>currentId := i\<rparr>"
| "socket_on (CallMade off caller) ok s =
     setCallStatus IncomingCall
       (s\<lparr>incomingCallData := Some \<lparr>offer = off, callerId = caller\<rparr>\<rparr>)"
| "socket_on (AnswerMade ans) ok s =
     (case peerManagerRef s of
        None \<Rightarrow> s
      | Some m \<Rightarrow> handleAnswer m ans ok s)"
| "socket_on (IceCandidateMsg cand) ok s =
     (case peerManagerRef s of
        None \<Rightarrow> s
      | Some m \<Rightarrow> (case cand of None \<Rightarrow> s | Some c \<Rightarrow> handleIceCandidate m c ok s))"
| "socket_on CallEnd ok s = s"

text \<open>
  Events of a peer connection at address \<open>p\<close>. A connection that is closed (or was never
  created) fires none; an open one runs the callback on its \<open>owner\<close>. A change of the ICE
  connection state is made by the browser before the callback reads it.

  The intents are the \<^verbatim>\<open>onClick\<close> handlers themselves: \<open>step\<close> runs them in every state,
  also where the page disables or hides their button.
\<close>

definition fires :: "nat \<Rightarrow> state \<Rightarrow> bool" where
  "fires p s = (p < length (pcs s) \<and> signalingState (pcs s ! p) \<noteq> SignalingClosed)"

datatype event =
    SetTargetId string
  | StartCall browser
  | AnswerCall browser
  | RejectCall
  | EndCall
  | Socket inbound bool
  | IceConnectionStateChange nat IceConnectionState
  | IceCandidateEvent nat "candidate option"
  | TrackEvent nat MediaStream

fun step :: "event \<Rightarrow> state \<Rightarrow> state" where
  "step (SetTargetId t) s = s\<lparr>targetId := t\<rparr>"
| "step (StartCall env) s = startCall env s"
| "step (AnswerCall env) s = answerCall env s"
| "step RejectCall s = rejectCall s"
| "step EndCall s = endCall s"
| "step (Socket msg ok) s = socket_on msg ok s"
| "step (IceConnectionStateChange p st) s =
     (if fires p s
      then oniceconnectionstatechange (owner (pcs s ! p))
             (update_pc p (\<lambda>c. c\<lparr>iceConnectionState := st\<rparr>) s)
      else s)"
| "step (IceCandidateEvent p cand) s =
     (if fires p s then onicecandidate (owner (pcs s ! p)) cand s else s)"
| "step (TrackEvent p stream) s =
     (if fires p s then ontrack (owner (pcs s ! p)) stream s else s)"

fun run :: "event list \<Rightarrow> state \<Rightarrow> state" where
  "run [] s = s"
| "run (e # es) s = run es (step e s)"

text \<open>The connections that are open: the live Transport Sessions.\<close>

definition live :: "state \<Rightarrow> nat list" where
  "live s = filter (\<lambda>p. signalingState (pcs s ! p) \<noteq> SignalingClosed) [0..<length (pcs s)]"

subsection \<open>Well-formed states\<close>

text \<open>
  A reference of the source always points to an object. In the stores that reads: the
  reference of the component is an allocated manager; the connection a manager holds is
  allocated, open, and its callbacks run on that manager; the callbacks of every
  connection run on an allocated manager. The last conjunct is a fact about the
  connections the source drives: one that waits for the answer to its own offer has no
  remote description yet. Every state the component reaches is well-formed (\<open>wf_reachable\<close>).
\<close>

definition wf :: "state \<Rightarrow> bool" where
  "wf s =
     ((case peerManagerRef s of None \<Rightarrow> True | Some m \<Rightarrow> m < length (managers s)) \<and>
      (\<forall>m \<in> set [0..<length (managers s)].
         case pc (managers s ! m) of
           None \<Rightarrow> True
         | Some p \<Rightarrow> p < length (pcs s) \<and> owner (pcs s ! p) = m
                      \<and> signalingState (pcs s ! p) \<noteq> SignalingClosed) \<and>
      (\<forall>p \<in> set [0..<length (pcs s)].
         owner (pcs s ! p) < length (managers s)
         \<and> (signalingState (pcs s ! p) = HaveLocalOffer \<longrightarrow> remoteDescription (pcs s ! p) = None)
         \<and> (signalingState (pcs s ! p) \<noteq> SignalingClosed \<longrightarrow>
              pc (managers s ! owner (pcs s ! p)) = Some p)))"

subsection \<open>Concrete browsers and call states\<close>

text \<open>
  A browser that grants the media and accepts every step, one whose \<^verbatim>\<open>createOffer\<close>
  is rejected, and one that refuses the media.
\<close>

definition browser_ok :: browser where
  "browser_ok = \<lparr>userMedia = Some [0, 1], description = Some ''sdp'',
                  localAccepted = True, remoteAccepted = True\<rparr>"

definition browser_no_offer :: browser where
  "browser_no_offer = \<lparr>userMedia = Some [0, 1], description = None,
                        localAccepted = True, remoteAccepted = True\<rparr>"

definition browser_denied :: browser where
  "browser_denied = \<lparr>userMedia = None, description = Some ''sdp'',
                      localAccepted = True, remoteAccepted = True\<rparr>"

text \<open>
  \<open>waiting\<close>: the initiator has sent its offer to \<open>B\<close>. \<open>answered\<close>: the answer of \<open>B\<close> has
  been applied. \<open>connected\<close>: the transport has then reported \<open>checking\<close> and \<open>connected\<close>.
  \<open>ringing\<close>: an offer of \<open>A\<close> has arrived at an idle component.
\<close>

definition waiting :: state where
  "waiting = run [SetTargetId ''B'', StartCall browser_ok] init"

definition answered :: state where
  "answered = run [Socket (AnswerMade ''ans'') True] waiting"

definition connected :: state where
  "connected =
     run [IceConnectionStateChange 0 IceChecking, IceConnectionStateChange 0 IceConnected] answered"

definition ringing :: state where
  "ringing = run [Socket (CallMade ''off'' ''A'') True] init"

section \<open>Every reachable state is well-formed\<close>

lemma wf_iff:
  "wf s \<longleftrightarrow>
     (\<forall>m. peerManagerRef s = Some m \<longrightarrow> m < length (managers s)) \<and>
     (\<forall>m p. m < length (managers s) \<longrightarrow> pc (managers s ! m) = Some p \<longrightarrow>
        p < length (pcs s) \<and> owner (pcs s ! p) = m
        \<and> signalingState (pcs s ! p) \<noteq> SignalingClosed) \<and>
     (\<forall>p < length (pcs s).
        owner (pcs s ! p) < length (managers s)
        \<and> (signalingState (pcs s ! p) = HaveLocalOffer \<longrightarrow> remoteDescription (pcs s ! p) = None)
        \<and> (signalingState (pcs s ! p) \<noteq> SignalingClosed \<longrightarrow>
             pc (managers s ! owner (pcs s ! p)) = Some p))"
  by (auto simp: wf_def split: option.splits)

lemma wf_init: "wf init"
  by (simp add: wf_def init_def)

lemma wf_cong:
  "peerManagerRef t = peerManagerRef s \<Longrightarrow> managers t = managers s \<Longrightarrow> pcs t = pcs s \<Longrightarrow> wf t = wf s"
  by (auto simp: wf_iff)

lemma wf_setCallStatus [simp]: "wf (setCallStatus st s) = wf s"
  by (rule wf_cong) (simp_all add: setCallStatus_def)

lemma wf_emit [simp]: "wf (emit msg s) = wf s"
  by (rule wf_cong) (simp_all add: emit_def)

lemma wf_ref: "wf s \<Longrightarrow> peerManagerRef s = Some m \<Longrightarrow> m < length (managers s)"
  by (simp add: wf_iff)

lemma wf_pc:
  "wf s \<Longrightarrow> m < length (managers s) \<Longrightarrow> pc (managers s ! m) = Some p \<Longrightarrow>
     p < length (pcs s) \<and> owner (pcs s ! p) = m \<and> signalingState (pcs s ! p) \<noteq> SignalingClosed"
  by (simp add: wf_iff)

lemma wf_unique:
  "wf s \<Longrightarrow> m < length (managers s) \<Longrightarrow> n < length (managers s) \<Longrightarrow>
     pc (managers s ! m) = Some p \<Longrightarrow> pc (managers s ! n) = Some p \<Longrightarrow> m = n"
  using wf_pc by blast


lemma wf_owner: "wf s \<Longrightarrow> p < length (pcs s) \<Longrightarrow> owner (pcs s ! p) < length (managers s)"
  by (simp add: wf_iff)

lemma wf_offer:
  "wf s \<Longrightarrow> p < length (pcs s) \<Longrightarrow> signalingState (pcs s ! p) = HaveLocalOffer \<Longrightarrow>
     remoteDescription (pcs s ! p) = None"
  by (simp add: wf_iff)

lemma wf_open:
  "wf s \<Longrightarrow> p < length (pcs s) \<Longrightarrow> signalingState (pcs s ! p) \<noteq> SignalingClosed \<Longrightarrow>
     pc (managers s ! owner (pcs s ! p)) = Some p"
  by (simp add: wf_iff)

lemma wfI:
  assumes "\<And>m. peerManagerRef s = Some m \<Longrightarrow> m < length (managers s)"
    and "\<And>m p. m < length (managers s) \<Longrightarrow> pc (managers s ! m) = Some p \<Longrightarrow>
           p < length (pcs s) \<and> owner (pcs s ! p) = m
           \<and> signalingState (pcs s ! p) \<noteq> SignalingClosed"
    and "\<And>p. p < length (pcs s) \<Longrightarrow> owner (pcs s ! p) < length (managers s)"
    and "\<And>p. p < length (pcs s) \<Longrightarrow> signalingState (pcs s ! p) = HaveLocalOffer \<Longrightarrow>
           remoteDescription (pcs s ! p) = None"
    and "\<And>p. p < length (pcs s) \<Longrightarrow> signalingState (pcs s ! p) \<noteq> SignalingClosed \<Longrightarrow>
           pc (managers s ! owner (pcs s ! p)) = Some p"
  shows "wf s"
  unfolding wf_iff using assms by blast

lemmas prims = update_pc_def update_manager_def setCallStatus_def emit_def

lemma update_pc_fields [simp]:
  "managers (update_pc q f s) = managers s"
  "peerManagerRef (update_pc q f s) = peerManagerRef s"
  "callStatus (update_pc q f s) = callStatus s"
  "statusLog (update_pc q f s) = statusLog s"
  "emitted (update_pc q f s) = emitted s"
  "incomingCallData (update_pc q f s) = incomingCallData s"
  "targetId (update_pc q f s) = targetId s"
  "localStream (update_pc q f s) = localStream s"
  "remoteStream (update_pc q f s) = remoteStream s"
  "length (pcs (update_pc q f s)) = length (pcs s)"
  by (simp_all add: update_pc_def)

lemma update_pc_nth:
  "p < length (pcs s) \<Longrightarrow>
     pcs (update_pc q f s) ! p = (if p = q then f (pcs s ! p) else pcs s ! p)"
  by (auto simp: update_pc_def nth_list_update)

lemma update_manager_fields [simp]:
  "pcs (update_manager m f s) = pcs s"
  "peerManagerRef (update_manager m f s) = peerManagerRef s"
  "callStatus (update_manager m f s) = callStatus s"
  "statusLog (update_manager m f s) = statusLog s"
  "emitted (update_manager m f s) = emitted s"
  "incomingCallData (update_manager m f s) = incomingCallData s"
  "targetId (update_manager m f s) = targetId s"
  "localStream (update_manager m f s) = localStream s"
  "remoteStream (update_manager m f s) = remoteStream s"
  "length (managers (update_manager m f s)) = length (managers s)"
  by (simp_all add: update_manager_def)

lemma update_manager_nth:
  "n < length (managers s) \<Longrightarrow>
     managers (update_manager m f s) ! n = (if n = m then f (managers s ! n) else managers s ! n)"
  by (auto simp: update_manager_def nth_list_update)

lemma setCallStatus_fields [simp]:
  "pcs (setCallStatus st s) = pcs s"
  "managers (setCallStatus st s) = managers s"
  "peerManagerRef (setCallStatus st s) = peerManagerRef s"
  "callStatus (setCallStatus st s) = st"
  "statusLog (setCallStatus st s) = statusLog s @ [st]"
  "emitted (setCallStatus st s) = emitted s"
  "incomingCallData (setCallStatus st s) = incomingCallData s"
  "targetId (setCallStatus st s) = targetId s"
  "localStream (setCallStatus st s) = localStream s"
  "remoteStream (setCallStatus st s) = remoteStream s"
  by (simp_all add: setCallStatus_def)

lemma emit_fields [simp]:
  "pcs (emit msg s) = pcs s"
  "managers (emit msg s) = managers s"
  "peerManagerRef (emit msg s) = peerManagerRef s"
  "callStatus (emit msg s) = callStatus s"
  "statusLog (emit msg s) = statusLog s"
  "emitted (emit msg s) = emitted s @ [msg]"
  "incomingCallData (emit msg s) = incomingCallData s"
  "targetId (emit msg s) = targetId s"
  "localStream (emit msg s) = localStream s"
  "remoteStream (emit msg s) = remoteStream s"
  by (simp_all add: emit_def)

lemma close_fields:
  "peerManagerRef (close m s) = peerManagerRef s"
  "length (managers (close m s)) = length (managers s)"
  "n < length (managers s) \<Longrightarrow>
     pc (managers (close m s) ! n) = (if n = m then None else pc (managers s ! n))"
  "pcs (close m s) =
     (case pc (managers s ! m) of None \<Rightarrow> pcs s | Some p \<Rightarrow> pcs (update_pc p pc_close s))"
  "callStatus (close m s) = Idle"
  "statusLog (close m s) = statusLog s @ [Idle]"
  "emitted (close m s) = emitted s"
  "incomingCallData (close m s) = incomingCallData s"
  "targetId (close m s) = targetId s"
  "localStream (close m s) = localStream s"
  "remoteStream (close m s) = None"
  by (simp_all add: close_def Let_def update_manager_nth split: option.splits)

lemma wf_close:
  assumes w: "wf s" and m: "m < length (managers s)"
  shows "wf (close m s)"
proof (rule wfI)
  fix n assume "peerManagerRef (close m s) = Some n"
  then show "n < length (managers (close m s))"
    using wf_ref[OF w] by (simp add: close_fields)
next
  fix n p assume "n < length (managers (close m s))" "pc (managers (close m s) ! n) = Some p"
  then have n: "n \<noteq> m" "n < length (managers s)" "pc (managers s ! n) = Some p"
    by (auto simp: close_fields split: if_splits)
  have "pc (managers s ! m) \<noteq> Some p" using wf_pc[OF w n(2) n(3)] wf_pc[OF w m, of p] n(1) by auto
  then show "p < length (pcs (close m s)) \<and> owner (pcs (close m s) ! p) = n
         \<and> signalingState (pcs (close m s) ! p) \<noteq> SignalingClosed"
    using wf_pc[OF w n(2) n(3)] by (auto simp: close_fields update_pc_nth split: option.splits)
next
  fix p assume "p < length (pcs (close m s))"
  then show "owner (pcs (close m s) ! p) < length (managers (close m s))"
    using wf_owner[OF w, of p]
    by (auto simp: close_fields update_pc_nth pc_close_def split: option.splits)
next
  fix p assume "p < length (pcs (close m s))" "signalingState (pcs (close m s) ! p) = HaveLocalOffer"
  then show "remoteDescription (pcs (close m s) ! p) = None"
    using wf_offer[OF w, of p]
    by (auto simp: close_fields update_pc_nth pc_close_def split: option.splits if_splits)
next
  fix p assume a: "p < length (pcs (close m s))" "signalingState (pcs (close m s) ! p) \<noteq> SignalingClosed"
  then have p: "pc (managers s ! m) \<noteq> Some p" "p < length (pcs s)"
    "signalingState (pcs s ! p) \<noteq> SignalingClosed" "pcs (close m s) ! p = pcs s ! p"
    by (auto simp: close_fields update_pc_nth pc_close_def split: option.splits if_splits)
  have o: "pc (managers s ! owner (pcs s ! p)) = Some p" by (rule wf_open[OF w p(2) p(3)])
  with p(1) have "owner (pcs s ! p) \<noteq> m" by auto
  with o show "pc (managers (close m s) ! owner (pcs (close m s) ! p)) = Some p"
    using wf_owner[OF w p(2)] by (simp add: close_fields(3) p(4))
qed

lemma fold_pc_addTrack: "fold pc_addTrack ts c = c\<lparr>senders := senders c @ ts\<rparr>"
  by (induction ts arbitrary: c) (simp_all add: pc_addTrack_def)

lemma initPeerConnection_fields:
  assumes "m < length (managers s)" "pc (managers s ! m) = None"
  shows "peerManagerRef (initPeerConnection m ini remote s) = peerManagerRef s"
    "length (managers (initPeerConnection m ini remote s)) = length (managers s)"
    "n < length (managers s) \<Longrightarrow>
       pc (managers (initPeerConnection m ini remote s) ! n) =
         (if n = m then Some (length (pcs s)) else pc (managers s ! n))"
    "remotePeerId (managers (initPeerConnection m ini remote s) ! m) = Some remote"
    "pcs (initPeerConnection m ini remote s) =
       pcs s @ [(new_RTCPeerConnection m)\<lparr>senders := localStream_mgr (managers s ! m)\<rparr>]"
    "callStatus (initPeerConnection m ini remote s) = Connecting"
    "statusLog (initPeerConnection m ini remote s) = statusLog s @ [Connecting]"
    "emitted (initPeerConnection m ini remote s) = emitted s"
    "incomingCallData (initPeerConnection m ini remote s) = incomingCallData s"
    "targetId (initPeerConnection m ini remote s) = targetId s"
    "localStream (initPeerConnection m ini remote s) = localStream s"
    "remoteStream (initPeerConnection m ini remote s) = remoteStream s"
  using assms
  by (simp_all add: initPeerConnection_def Let_def prims fold_pc_addTrack
        new_RTCPeerConnection_def nth_list_update)

lemma wf_initPeerConnection:
  assumes w: "wf s" and m: "m < length (managers s)" and f: "pc (managers s ! m) = None"
  shows "wf (initPeerConnection m ini remote s)"
proof -
  note F = initPeerConnection_fields[OF m f]
  show ?thesis
  proof (rule wfI)
    fix n assume "peerManagerRef (initPeerConnection m ini remote s) = Some n"
    then show "n < length (managers (initPeerConnection m ini remote s))"
      using wf_ref[OF w] by (simp add: F)
  next
    fix n p
    assume "n < length (managers (initPeerConnection m ini remote s))"
      "pc (managers (initPeerConnection m ini remote s) ! n) = Some p"
    then show "p < length (pcs (initPeerConnection m ini remote s))
         \<and> owner (pcs (initPeerConnection m ini remote s) ! p) = n
         \<and> signalingState (pcs (initPeerConnection m ini remote s) ! p) \<noteq> SignalingClosed"
      using wf_pc[OF w, of n p]
      by (auto simp: F nth_append new_RTCPeerConnection_def split: if_splits)
  next
    fix p assume "p < length (pcs (initPeerConnection m ini remote s))"
    then show "owner (pcs (initPeerConnection m ini remote s) ! p)
                 < length (managers (initPeerConnection m ini remote s))"
      using wf_owner[OF w, of p] m
      by (auto simp: F nth_append new_RTCPeerConnection_def less_Suc_eq)
  next
    fix p assume "p < length (pcs (initPeerConnection m ini remote s))"
      "signalingState (pcs (initPeerConnection m ini remote s) ! p) = HaveLocalOffer"
    then show "remoteDescription (pcs (initPeerConnection m ini remote s) ! p) = None"
      using wf_offer[OF w, of p]
      by (auto simp: F nth_append new_RTCPeerConnection_def less_Suc_eq split: if_splits)
  next
    fix p assume a: "p < length (pcs (initPeerConnection m ini remote s))"
      "signalingState (pcs (initPeerConnection m ini remote s) ! p) \<noteq> SignalingClosed"
    show "pc (managers (initPeerConnection m ini remote s)
               ! owner (pcs (initPeerConnection m ini remote s) ! p)) = Some p"
    proof (cases "p < length (pcs s)")
      case True
      with a have o: "pcs (initPeerConnection m ini remote s) ! p = pcs s ! p"
        "signalingState (pcs s ! p) \<noteq> SignalingClosed"
        by (simp_all add: F nth_append)
      have h: "pc (managers s ! owner (pcs s ! p)) = Some p" by (rule wf_open[OF w True o(2)])
      with f have "owner (pcs s ! p) \<noteq> m" by auto
      with h show ?thesis using wf_owner[OF w True] unfolding o(1) by (simp add: F(3))
    next
      case False
      with a have "p = length (pcs s)" by (simp add: F)
      then show ?thesis using m by (simp add: F new_RTCPeerConnection_def)
    qed
  qed
qed

lemma wf_handleAnswer: "wf s \<Longrightarrow> m < length (managers s) \<Longrightarrow> wf (handleAnswer m ans ok s)"
  by (auto simp: wf_iff handleAnswer_def prims pc_setRemoteDescription_def nth_list_update
        split: option.splits if_splits)

lemma wf_handleIceCandidate:
  "wf s \<Longrightarrow> m < length (managers s) \<Longrightarrow> wf (handleIceCandidate m cand ok s)"
  by (auto simp: wf_iff handleIceCandidate_def prims pc_addIceCandidate_def nth_list_update
        split: option.splits if_splits)

lemma wf_install_manager: "wf s \<Longrightarrow> wf (install_manager stream s)"
  by (auto simp: wf_iff install_manager_def new_PeerConnectionManager_def nth_append less_Suc_eq)

lemma initPeerConnection_fresh:
  assumes "m < length (managers s)" "pc (managers s ! m) = None"
  shows "pc (managers (initPeerConnection m ini remote s) ! m) = Some (length (pcs s))
       \<and> remoteDescription (pcs (initPeerConnection m ini remote s) ! length (pcs s)) = None
       \<and> length (managers (initPeerConnection m ini remote s)) = length (managers s)"
  using assms
  by (auto simp: initPeerConnection_def Let_def prims fold_pc_addTrack
        new_RTCPeerConnection_def nth_list_update nth_append)

lemma wf_createOffer:
  assumes "wf s" "m < length (managers s)"
    "\<And>p. pc (managers s ! m) = Some p \<Longrightarrow> remoteDescription (pcs s ! p) = None"
  shows "wf (createOffer m env s)"
  using assms
  by (auto simp: wf_iff createOffer_def prims pc_createOffer_def pc_setLocalDescription_def
        nth_list_update split: option.splits if_splits)

lemma wf_handleOffer: "wf s \<Longrightarrow> m < length (managers s) \<Longrightarrow> wf (handleOffer m off env s)"
  by (auto simp: wf_iff handleOffer_def Let_def prims pc_setRemoteDescription_def
        pc_createAnswer_def pc_setLocalDescription_def nth_list_update
        split: option.splits if_splits)

lemma wf_stream_or_getMedia: "wf s \<Longrightarrow> wf (fst (stream_or_getMedia env s))"
  by (auto simp: stream_or_getMedia_def getMedia_def wf_iff setCallStatus_def split: option.splits)

lemma install_manager_fresh:
  "length (managers (install_manager stream s)) = Suc (length (managers s))
   \<and> pc (managers (install_manager stream s) ! length (managers s)) = None
   \<and> pcs (install_manager stream s) = pcs s"
  by (simp add: install_manager_def new_PeerConnectionManager_def)

lemma wf_new_session:
  assumes "wf s"
  shows "wf (initPeerConnection (length (managers s)) ini remote (install_manager stream s))"
    and "length (managers (initPeerConnection (length (managers s)) ini remote (install_manager stream s)))
         = Suc (length (managers s))"
    and "pc (managers (initPeerConnection (length (managers s)) ini remote (install_manager stream s))
             ! length (managers s)) = Some p \<Longrightarrow>
         remoteDescription (pcs (initPeerConnection (length (managers s)) ini remote
             (install_manager stream s)) ! p) = None"
proof -
  let ?t = "install_manager stream s"
  have a: "length (managers s) < length (managers ?t)" "pc (managers ?t ! length (managers s)) = None"
    "pcs ?t = pcs s" "length (managers ?t) = Suc (length (managers s))"
    using install_manager_fresh[of stream s] by simp_all
  show "wf (initPeerConnection (length (managers s)) ini remote ?t)"
    by (rule wf_initPeerConnection[OF wf_install_manager[OF assms] a(1) a(2)])
  from initPeerConnection_fresh[OF a(1) a(2), of ini remote]
  show "length (managers (initPeerConnection (length (managers s)) ini remote ?t)) = Suc (length (managers s))"
    by (simp add: a)
  from initPeerConnection_fresh[OF a(1) a(2), of ini remote]
  show "pc (managers (initPeerConnection (length (managers s)) ini remote ?t) ! length (managers s)) = Some p \<Longrightarrow>
         remoteDescription (pcs (initPeerConnection (length (managers s)) ini remote ?t) ! p) = None"
    by (simp add: a)
qed

lemma wf_startCall: assumes "wf s" shows "wf (startCall env s)"
proof -
  obtain s1 r where sg: "stream_or_getMedia env s = (s1, r)" by (cases "stream_or_getMedia env s")
  have w1: "wf s1" using wf_stream_or_getMedia[OF assms, of env] sg by simp
  show ?thesis
  proof (cases r)
    case None
    with assms w1 sg show ?thesis by (simp add: startCall_def)
  next
    case (Some stream)
    have "wf (createOffer (length (managers s1)) env
               (initPeerConnection (length (managers s1)) True (targetId s) (install_manager stream s1)))"
      using wf_new_session[OF w1, of True "targetId s" stream]
      by (intro wf_createOffer) simp_all
    with assms sg Some show ?thesis by (simp add: startCall_def Let_def)
  qed
qed

lemma wf_answerCall: assumes "wf s" shows "wf (answerCall env s)"
proof -
  obtain s1 r where sg: "stream_or_getMedia env s = (s1, r)" by (cases "stream_or_getMedia env s")
  have w1: "wf s1" using wf_stream_or_getMedia[OF assms, of env] sg by simp
  show ?thesis
  proof (cases r)
    case None
    with assms w1 sg show ?thesis by (simp add: answerCall_def split: option.splits)
  next
    case (Some stream)
    have "\<And>inc. wf (handleOffer (length (managers s1)) (offer inc) env
               (initPeerConnection (length (managers s1)) False (callerId inc) (install_manager stream s1)))"
      using wf_new_session(1,2)[OF w1, of False _ stream]
      by (intro wf_handleOffer) simp_all
    then have "\<And>inc. wf ((handleOffer (length (managers s1)) (offer inc) env
               (initPeerConnection (length (managers s1)) False (callerId inc) (install_manager stream s1)))
                \<lparr>incomingCallData := None\<rparr>)"
      by (simp add: wf_cong[of "t\<lparr>incomingCallData := None\<rparr>" t for t])
    with assms sg Some show ?thesis by (auto simp: answerCall_def Let_def split: option.splits)
  qed
qed

lemma wf_rejectCall: "wf s \<Longrightarrow> wf (rejectCall s)"
  by (simp add: rejectCall_def wf_cong[of "s\<lparr>incomingCallData := None\<rparr>" s])

lemma wf_endCall: assumes "wf s" shows "wf (endCall s)"
proof -
  have "wf (case peerManagerRef s of None \<Rightarrow> s | Some m \<Rightarrow> (close m s)\<lparr>peerManagerRef := None\<rparr>)"
  proof (cases "peerManagerRef s")
    case None
    with assms show ?thesis by simp
  next
    case (Some m)
    have "wf (close m s)" using wf_close[OF assms wf_ref[OF assms Some]] .
    then have "wf ((close m s)\<lparr>peerManagerRef := None\<rparr>)" by (simp add: wf_iff)
    with Some show ?thesis by simp
  qed
  then show ?thesis
    by (simp add: endCall_def Let_def wf_iff prims)
qed

lemma wf_socket_on: "wf s \<Longrightarrow> wf (socket_on msg ok s)"
proof (cases msg)
  case (Me i)
  assume "wf s" with Me show ?thesis by (simp add: wf_iff)
next
  case (CallMade off caller)
  assume "wf s" with CallMade show ?thesis by (simp add: wf_iff prims)
next
  case (AnswerMade ans)
  assume "wf s" with AnswerMade show ?thesis
    by (auto split: option.splits intro: wf_handleAnswer wf_ref)
next
  case (IceCandidateMsg c)
  assume "wf s" with IceCandidateMsg show ?thesis
    by (auto split: option.splits intro: wf_handleIceCandidate wf_ref)
next
  case CallEnd
  assume "wf s" with CallEnd show ?thesis by simp
qed

lemma wf_ice_update:
  assumes "wf s"
  shows "wf (update_pc p (\<lambda>c. c\<lparr>iceConnectionState := st\<rparr>) s)"
proof (cases "p < length (pcs s)")
  case True
  with assms show ?thesis
    by (auto simp: wf_iff prims nth_list_update)
next
  case False
  then have "pcs (update_pc p (\<lambda>c. c\<lparr>iceConnectionState := st\<rparr>) s) = pcs s"
    by (simp add: prims list_update_beyond)
  with assms show ?thesis
    by (simp add: wf_cong[of "update_pc p f s" s for f] prims)
qed

lemma wf_oniceconnectionstatechange:
  assumes "wf s" "m < length (managers s)"
  shows "wf (oniceconnectionstatechange m s)"
proof -
  have "wf (close m (setCallStatus CallEnded s))"
    using assms by (intro wf_close) (simp_all add: setCallStatus_def wf_iff)
  with assms show ?thesis
    by (simp add: oniceconnectionstatechange_def split: option.splits)
qed

lemma wf_step: assumes "wf s" shows "wf (step e s)"
proof (cases e)
  case (SetTargetId t)
  with assms show ?thesis by (simp add: wf_iff)
next
  case (StartCall env)
  with assms show ?thesis by (simp add: wf_startCall)
next
  case (AnswerCall env)
  with assms show ?thesis by (simp add: wf_answerCall)
next
  case RejectCall
  with assms show ?thesis by (simp add: wf_rejectCall)
next
  case EndCall
  with assms show ?thesis by (simp add: wf_endCall)
next
  case (Socket msg ok)
  with assms show ?thesis by (simp add: wf_socket_on)
next
  case (IceConnectionStateChange p st)
  have "fires p s \<Longrightarrow> wf (oniceconnectionstatechange (owner (pcs s ! p))
             (update_pc p (\<lambda>c. c\<lparr>iceConnectionState := st\<rparr>) s))"
    using wf_owner[OF assms, of p]
    by (intro wf_oniceconnectionstatechange wf_ice_update assms) (simp add: fires_def prims)
  with assms IceConnectionStateChange show ?thesis by simp
next
  case (IceCandidateEvent p cand)
  with assms show ?thesis
    by (simp add: onicecandidate_def split: option.splits)
next
  case (TrackEvent p stream)
  with assms show ?thesis by (simp add: ontrack_def wf_iff)
qed

lemma wf_run: "wf s \<Longrightarrow> wf (run es s)"
  by (induction es arbitrary: s) (simp_all add: wf_step)

lemma wf_reachable: "wf (run es init)"
  by (rule wf_run[OF wf_init])


lemma endCall_fields:
  "callStatus (endCall s) = CallEnded"
  "peerManagerRef (endCall s) = None"
  "statusLog (endCall s) =
     statusLog s @ (case peerManagerRef s of None \<Rightarrow> [CallEnded] | Some m \<Rightarrow> [Idle, CallEnded])"
  "incomingCallData (endCall s) = None"
  "targetId (endCall s) = []"
  "pcs (endCall s) = (case peerManagerRef s of None \<Rightarrow> pcs s | Some m \<Rightarrow> pcs (close m s))"
  "managers (endCall s) =
     (case peerManagerRef s of None \<Rightarrow> managers s | Some m \<Rightarrow> managers (close m s))"
  by (simp_all add: endCall_def Let_def close_fields split: option.splits)

section \<open>The status written by each handler\<close>

lemma initPeerConnection_status: "callStatus (initPeerConnection m ini remote s) = Connecting"
  by (simp add: initPeerConnection_def Let_def)

lemma createOffer_status:
  "callStatus (createOffer m env s) = callStatus s
   \<or> callStatus (createOffer m env s) = CallFailed
   \<or> callStatus (createOffer m env s) = WaitingForAnswer"
  by (simp add: createOffer_def split: option.splits)

lemma startCall_status:
  "callStatus (startCall env s) = Connected \<Longrightarrow> callStatus s = Connected"
  using createOffer_status[of "length (managers (fst (stream_or_getMedia env s)))" env
      "initPeerConnection (length (managers (fst (stream_or_getMedia env s)))) True (targetId s)
         (install_manager (the (snd (stream_or_getMedia env s))) (fst (stream_or_getMedia env s)))"]
  by (auto simp: startCall_def Let_def initPeerConnection_status stream_or_getMedia_def getMedia_def
        split: if_splits option.splits prod.splits)

lemma handleAnswer_status:
  "callStatus (handleAnswer m ans ok s) = Connected \<Longrightarrow> callStatus s = Connected"
  by (simp add: handleAnswer_def split: option.splits)

lemma handleIceCandidate_status:
  "callStatus (handleIceCandidate m cand ok s) = callStatus s"
  by (simp add: handleIceCandidate_def split: option.splits)

lemma socket_on_status:
  "callStatus (socket_on msg ok s) = Connected \<Longrightarrow> callStatus s = Connected"
  by (cases msg) (auto simp: handleIceCandidate_status split: option.splits dest: handleAnswer_status)

lemma ice_change_status:
  assumes "wf s" and "callStatus (step (IceConnectionStateChange p st) s) = Connected"
  shows "callStatus s = Connected \<or> st = IceConnected"
proof (cases "fires p s")
  case False
  with assms(2) show ?thesis by simp
next
  case True
  then have p: "p < length (pcs s)" "signalingState (pcs s ! p) \<noteq> SignalingClosed"
    by (simp_all add: fires_def)
  have o: "pc (managers s ! owner (pcs s ! p)) = Some p" by (rule wf_open[OF assms(1) p])
  from assms(2) True o p(1) show ?thesis
    by (simp add: oniceconnectionstatechange_def update_pc_nth close_fields split: if_splits)
qed


lemma handleOffer_success:
  assumes "pc (managers s ! m) = Some p" and "p < length (pcs s)"
    and "remotePeerId (managers s ! m) = Some r" and "r \<noteq> []"
    and "signalingState (pcs s ! p) = Stable"
    and "remoteAccepted env" and "description env = Some d" and "localAccepted env"
  shows "callStatus (handleOffer m off env s) = Connected"
    and "statusLog (handleOffer m off env s) = statusLog s @ [Connected]"
    and "iceConnectionState (pcs (handleOffer m off env s) ! p) = iceConnectionState (pcs s ! p)"
    and "remoteDescription (pcs (handleOffer m off env s) ! p) = Some off"
    and "emitted (handleOffer m off env s) = emitted s @ [AnswerCallOut (Some d) r]"
  using assms
  by (simp_all add: handleOffer_def Let_def falsy_def pc_setRemoteDescription_def
        pc_createAnswer_def pc_setLocalDescription_def update_pc_nth)

lemma answerCall_success:
  assumes i: "incomingCallData s = Some inc" and c: "callStatus s = IncomingCall"
    and st: "localStream s \<noteq> None \<or> userMedia env \<noteq> None"
    and r: "callerId inc \<noteq> []"
    and e: "remoteAccepted env" "description env = Some d" "localAccepted env"
  shows "callStatus (answerCall env s) = Connected
       \<and> length (pcs (answerCall env s)) = Suc (length (pcs s))
       \<and> iceConnectionState (pcs (answerCall env s) ! length (pcs s)) = IceNew
       \<and> remoteDescription (pcs (answerCall env s) ! length (pcs s)) = Some (offer inc)
       \<and> emitted (answerCall env s) = emitted s @ [AnswerCallOut (Some d) (callerId inc)]"
proof -
  obtain s1 stream where sg: "stream_or_getMedia env s = (s1, Some stream)"
    and s1: "managers s1 = managers s" "pcs s1 = pcs s" "emitted s1 = emitted s"
    using st by (cases "localStream s"; cases "userMedia env")
      (auto simp: stream_or_getMedia_def getMedia_def)
  let ?m = "length (managers s1)"
  let ?s2 = "install_manager stream s1"
  let ?s3 = "initPeerConnection ?m False (callerId inc) ?s2"
  have a: "?m < length (managers ?s2)" "pc (managers ?s2 ! ?m) = None"
    "pcs ?s2 = pcs s" "emitted ?s2 = emitted s"
    using install_manager_fresh[of stream s1] by (simp_all add: s1 install_manager_def)
  note F = initPeerConnection_fields[OF a(1) a(2), where ini = False and remote = "callerId inc"]
  have h: "pc (managers ?s3 ! ?m) = Some (length (pcs s))" "length (pcs s) < length (pcs ?s3)"
    "remotePeerId (managers ?s3 ! ?m) = Some (callerId inc)"
    "signalingState (pcs ?s3 ! length (pcs s)) = Stable"
    "iceConnectionState (pcs ?s3 ! length (pcs s)) = IceNew"
    "emitted ?s3 = emitted s" "length (pcs ?s3) = Suc (length (pcs s))"
    using a(1) by (simp_all add: F a(3,4) new_RTCPeerConnection_def)
  note H = handleOffer_success[OF h(1,2,3) r h(4) e, where off = "offer inc"]
  have len: "length (pcs (handleOffer ?m (offer inc) env ?s3)) = length (pcs ?s3)"
    by (simp add: handleOffer_def Let_def split: option.splits)
  have "answerCall env s = (handleOffer ?m (offer inc) env ?s3)\<lparr>incomingCallData := None\<rparr>"
    using i c sg by (simp add: answerCall_def Let_def)
  then show ?thesis using H h(5,6,7) len by simp
qed

lemma ice_connected_report:
  assumes "wf s" and "fires p s"
  shows "callStatus (step (IceConnectionStateChange p IceConnected) s) = Connected"
proof -
  have p: "p < length (pcs s)" "signalingState (pcs s ! p) \<noteq> SignalingClosed"
    using assms(2) by (simp_all add: fires_def)
  have o: "pc (managers s ! owner (pcs s ! p)) = Some p" by (rule wf_open[OF assms(1) p])
  from assms(2) o p(1) show ?thesis
    by (simp add: oniceconnectionstatechange_def update_pc_nth)
qed

section \<open>The claims\<close>

subsection \<open>C1: transport failure in the middle of a call\<close>

text \<open>
  C1 says: when the transport reports \<open>failed\<close> (or \<open>disconnected\<close>) in the middle of a
  call, the status becomes \<open>CallEnded\<close> once, the session is closed, and the terminal
  status is not overwritten afterwards by a reset to \<open>Idle\<close>.

  The callback \<^verbatim>\<open>oniceconnectionstatechange\<close> writes \<open>CallEnded\<close> and then calls
  \<^verbatim>\<open>close()\<close>, whose last status write is \<open>Idle\<close>. In the connected call \<open>connected\<close>
  either report leaves the two writes \<open>CallEnded\<close>, \<open>Idle\<close> in this order, and the status
  \<open>Idle\<close>. (\<^verbatim>\<open>endCall\<close> has the two steps in the other order.)
\<close>

theorem transport_failure_status_overwritten:
  "callStatus connected = Connected
   \<and> statusLog (step (IceConnectionStateChange 0 IceFailed) connected)
       = statusLog connected @ [CallEnded, Idle]
   \<and> callStatus (step (IceConnectionStateChange 0 IceFailed) connected) = Idle
   \<and> statusLog (step (IceConnectionStateChange 0 IceDisconnected) connected)
       = statusLog connected @ [CallEnded, Idle]
   \<and> callStatus (step (IceConnectionStateChange 0 IceDisconnected) connected) = Idle"
  by code_simp

subsection \<open>C2: candidates that arrive before the remote description\<close>

text \<open>
  C2 says: a remote candidate that arrives before the remote description is set is
  buffered and applied once, in arrival order, after the remote description is applied.

  Counterexample to C2: the initiator waits for the answer (no remote description), the
  candidate \<open>c1\<close> arrives, then the answer. After the answer is applied the connection has
  applied no candidate: \<open>c1\<close> is lost. It is lost as well when it arrives at the responder
  between the offer and the answer intent, while there is no manager at all.
\<close>

theorem premature_candidate_counterexample:
  "remoteDescription (pcs waiting ! 0) = None
   \<and> remoteDescription
        (pcs (run [Socket (IceCandidateMsg (Some ''c1'')) True,
                   Socket (AnswerMade ''ans'') True] waiting) ! 0) = Some ''ans''
   \<and> remoteCandidates
        (pcs (run [Socket (IceCandidateMsg (Some ''c1'')) True,
                   Socket (AnswerMade ''ans'') True] waiting) ! 0) = []
   \<and> remoteDescription
        (pcs (run [Socket (IceCandidateMsg (Some ''c1'')) True,
                   AnswerCall browser_ok] ringing) ! 0) = Some ''off''
   \<and> remoteCandidates
        (pcs (run [Socket (IceCandidateMsg (Some ''c1'')) True,
                   AnswerCall browser_ok] ringing) ! 0) = []"
  by code_simp

text \<open>
  C2 as amended: \<^verbatim>\<open>handleIceCandidate\<close> hands every candidate to the connection at
  once; there is no buffer. While the component references no manager, or the session
  it holds has no remote description (the connection then rejects the candidate and the
  rejection is caught), the state is exactly as before: the candidate is dropped and the
  call does not fail. Once the remote description is set, a candidate the browser
  accepts is applied at once, after those applied before it. In no case does the status
  change.
\<close>

theorem premature_candidate_dropped:
  assumes "wf s"
  shows "(peerManagerRef s = None \<longrightarrow> socket_on (IceCandidateMsg (Some cand)) ok s = s)
       \<and> (\<forall>m p. peerManagerRef s = Some m \<longrightarrow> pc (managers s ! m) = Some p \<longrightarrow>
            (remoteDescription (pcs s ! p) = None \<longrightarrow>
               socket_on (IceCandidateMsg (Some cand)) ok s = s)
            \<and> (remoteDescription (pcs s ! p) \<noteq> None \<and> ok \<longrightarrow>
               remoteCandidates (pcs (socket_on (IceCandidateMsg (Some cand)) ok s) ! p)
                 = remoteCandidates (pcs s ! p) @ [cand]))
       \<and> callStatus (socket_on (IceCandidateMsg (Some cand)) ok s) = callStatus s"
proof -
  have held: "(remoteDescription (pcs s ! p) = None \<longrightarrow>
               socket_on (IceCandidateMsg (Some cand)) ok s = s)
            \<and> (remoteDescription (pcs s ! p) \<noteq> None \<and> ok \<longrightarrow>
               remoteCandidates (pcs (socket_on (IceCandidateMsg (Some cand)) ok s) ! p)
                 = remoteCandidates (pcs s ! p) @ [cand])"
    if r: "peerManagerRef s = Some m" and q: "pc (managers s ! m) = Some p" for m p
  proof -
    have m: "m < length (managers s)" by (rule wf_ref[OF assms r])
    have p: "p < length (pcs s)" "signalingState (pcs s ! p) \<noteq> SignalingClosed"
      using wf_pc[OF assms m q] by simp_all
    show ?thesis
      using r q p
      by (auto simp: handleIceCandidate_def pc_addIceCandidate_def update_pc_nth)
  qed
  have status: "callStatus (socket_on (IceCandidateMsg (Some cand)) ok s) = callStatus s"
    by (simp add: handleIceCandidate_status split: option.splits)
  from held status show ?thesis by simp
qed

text \<open>
  Witness for C2: \<open>c1\<close> arrives in \<open>ringing\<close> (no manager) and in \<open>waiting\<close> (no remote
  description) and the state stays as it is; \<open>c2\<close> arrives in \<open>answered\<close> and is applied.
\<close>

theorem premature_candidate_dropped_witness:
  "socket_on (IceCandidateMsg (Some ''c1'')) True ringing = ringing
   \<and> socket_on (IceCandidateMsg (Some ''c1'')) True waiting = waiting
   \<and> remoteCandidates (pcs (socket_on (IceCandidateMsg (Some ''c2'')) True answered) ! 0) = [''c2'']
   \<and> callStatus (socket_on (IceCandidateMsg (Some ''c1'')) True waiting) = WaitingForAnswer"
proof -
  have r: "wf ringing" "peerManagerRef ringing = None"
    by code_simp+
  have w: "wf waiting" "peerManagerRef waiting = Some 0" "pc (managers waiting ! 0) = Some 0"
    "remoteDescription (pcs waiting ! 0) = None" "callStatus waiting = WaitingForAnswer"
    by code_simp+
  have a: "wf answered" "peerManagerRef answered = Some 0" "pc (managers answered ! 0) = Some 0"
    "remoteDescription (pcs answered ! 0) \<noteq> None" "remoteCandidates (pcs answered ! 0) = []"
    by code_simp+
  from premature_candidate_dropped[OF r(1), where cand = "''c1''" and ok = True]
       premature_candidate_dropped[OF w(1), where cand = "''c1''" and ok = True]
       premature_candidate_dropped[OF a(1), where cand = "''c2''" and ok = True]
       r(2) w(2,3,4,5) a(2,3,4,5)
  show ?thesis by simp
qed

subsection \<open>C3: at most one live Transport Session\<close>

text \<open>
  C3 says: at most one live Transport Session exists at any time, and creating a new one
  while one is active closes the old one first.

  \<^verbatim>\<open>initPeerConnection\<close> closes the connection of the manager it runs on, but
  \<^verbatim>\<open>startCall\<close> and \<^verbatim>\<open>answerCall\<close> run it on a manager they have just constructed,
  which holds none; the manager referenced before, and its connection, are left as they
  are. Here the initiator waits for the answer of \<open>B\<close>, an offer of \<open>C\<close> arrives and is
  answered: the connections 0 and 1 are both open, and only 1 is still referenced. The
  same happens when a start whose offer failed (status \<open>CallFailed\<close>) is followed by a
  second start.
\<close>

theorem second_session_leaves_first_open:
  "live waiting = [0]
   \<and> peerManagerRef waiting = Some 0
   \<and> callStatus (run [Socket (CallMade ''off'' ''C'') True] waiting) = IncomingCall
   \<and> live (run [Socket (CallMade ''off'' ''C'') True, AnswerCall browser_ok] waiting) = [0, 1]
   \<and> peerManagerRef (run [Socket (CallMade ''off'' ''C'') True, AnswerCall browser_ok] waiting)
       = Some 1
   \<and> callStatus (run [SetTargetId ''B'', StartCall browser_no_offer] init) = CallFailed
   \<and> live (run [SetTargetId ''B'', StartCall browser_no_offer, StartCall browser_ok] init) = [0, 1]"
  by code_simp

subsection \<open>C4: an end-of-call message from the remote peer\<close>




subsection \<open>C5: the local end of a call\<close>

text \<open>
  C5 says: wherever \<^verbatim>\<open>end()\<close> is enabled it yields the final status \<open>CallEnded\<close>, no
  intermediate status such as \<open>Idle\<close> is visible, and the status does not revert to \<open>Idle\<close>
  afterwards.

  \<^verbatim>\<open>endCall\<close> does leave the status \<open>CallEnded\<close> in every state (\<open>endCall_fields\<close>), and
  its two calls of \<^verbatim>\<open>setCallStatus\<close> are made within one handler. But the status does
  not stay. The initiator waits for the answer of \<open>B\<close> (no transport state has changed
  yet), an offer of \<open>C\<close> arrives and is answered, and the call is ended: the status is
  \<open>CallEnded\<close>, and connection 0, which \<^verbatim>\<open>answerCall\<close> left open and unreferenced (C3),
  is still live. When it then reports \<open>failed\<close>, its callback writes \<open>CallEnded\<close> and
  \<^verbatim>\<open>close()\<close> writes \<open>Idle\<close> over it (C1): the status has reverted to \<open>Idle\<close>. The same
  run from the connected call ends the same way.
\<close>

theorem end_then_orphan_failure_reverts_to_Idle:
  "callStatus (run [Socket (CallMade ''off'' ''C'') True, AnswerCall browser_ok] waiting) = Connected
   \<and> callStatus (run [Socket (CallMade ''off'' ''C'') True, AnswerCall browser_ok, EndCall] waiting)
       = CallEnded
   \<and> live (run [Socket (CallMade ''off'' ''C'') True, AnswerCall browser_ok, EndCall] waiting) = [0]
   \<and> callStatus (run [Socket (CallMade ''off'' ''C'') True, AnswerCall browser_ok, EndCall,
                        IceConnectionStateChange 0 IceFailed] waiting) = Idle
   \<and> callStatus (run [Socket (CallMade ''off'' ''C'') True, AnswerCall browser_ok, EndCall] connected)
       = CallEnded
   \<and> callStatus (run [Socket (CallMade ''off'' ''C'') True, AnswerCall browser_ok, EndCall,
                        IceConnectionStateChange 0 IceFailed] connected) = Idle"
  by code_simp

subsection \<open>C6: when the status becomes Connected\<close>

text \<open>
  C6 says: the status becomes \<open>Connected\<close> only when the transport reports a connected
  ICE connection state; after a responder answers, or an initiator applies a received
  answer, the status stays as it is until then.

  Counterexample to C6: the responder answers the ringing call; \<^verbatim>\<open>handleOffer\<close> writes
  \<open>Connected\<close> as soon as the answer is sent, while the ICE connection state of the new
  connection is still \<open>new\<close>.
\<close>

theorem responder_connected_counterexample:
  "callStatus ringing = IncomingCall
   \<and> callStatus (step (AnswerCall browser_ok) ringing) = Connected
   \<and> iceConnectionState (pcs (step (AnswerCall browser_ok) ringing) ! 0) = IceNew"
  by code_simp

text \<open>
  C6 as amended: one event makes the status \<open>Connected\<close> only if it is a report of the
  ICE connection state \<open>connected\<close> or the answer intent of the responder. A report
  \<open>connected\<close> of an open connection makes it \<open>Connected\<close>. So does the answer intent,
  before any report: when an offer with a sender is pending, the status is
  \<open>IncomingCall\<close>, a local stream is held or granted and the browser accepts each step,
  \<^verbatim>\<open>handleOffer\<close> applies the offer, sends the answer and writes \<open>Connected\<close>, while the
  new connection is still in the ICE state \<open>new\<close>. When the initiator applies a received
  answer to the session that waits for it, the remote description is set and the status
  is unchanged.
\<close>

theorem connected_only_by_transport_or_answer:
  assumes "wf s"
  shows "(callStatus (step e s) = Connected \<longrightarrow>
            callStatus s = Connected
            \<or> (\<exists>p. e = IceConnectionStateChange p IceConnected)
            \<or> (\<exists>env. e = AnswerCall env))
       \<and> (\<forall>m p ans. peerManagerRef s = Some m \<longrightarrow> pc (managers s ! m) = Some p \<longrightarrow>
             signalingState (pcs s ! p) = HaveLocalOffer \<longrightarrow>
             callStatus (step (Socket (AnswerMade ans) True) s) = callStatus s
             \<and> remoteDescription (pcs (step (Socket (AnswerMade ans) True) s) ! p) = Some ans)
       \<and> (\<forall>inc d. incomingCallData s = Some inc \<longrightarrow> callStatus s = IncomingCall \<longrightarrow>
             (localStream s \<noteq> None \<or> userMedia env \<noteq> None) \<longrightarrow> callerId inc \<noteq> [] \<longrightarrow>
             remoteAccepted env \<longrightarrow> description env = Some d \<longrightarrow> localAccepted env \<longrightarrow>
             callStatus (step (AnswerCall env) s) = Connected
             \<and> iceConnectionState (pcs (step (AnswerCall env) s) ! length (pcs s)) = IceNew
             \<and> remoteDescription (pcs (step (AnswerCall env) s) ! length (pcs s)) = Some (offer inc)
             \<and> emitted (step (AnswerCall env) s)
                 = emitted s @ [AnswerCallOut (Some d) (callerId inc)])
       \<and> (\<forall>p. fires p s \<longrightarrow>
             callStatus (step (IceConnectionStateChange p IceConnected) s) = Connected)"
proof -
  have first: "callStatus s = Connected
            \<or> (\<exists>p. e = IceConnectionStateChange p IceConnected)
            \<or> (\<exists>env. e = AnswerCall env)"
    if c: "callStatus (step e s) = Connected"
  proof (cases e)
    case (SetTargetId t)
    with c show ?thesis by simp
  next
    case (StartCall env)
    with c show ?thesis by (simp add: startCall_status)
  next
    case (AnswerCall env)
    then show ?thesis by simp
  next
    case RejectCall
    with c show ?thesis by (simp add: rejectCall_def)
  next
    case EndCall
    with c show ?thesis by (simp add: endCall_fields)
  next
    case (Socket msg ok)
    with c show ?thesis by (simp add: socket_on_status)
  next
    case (IceConnectionStateChange p st)
    with c ice_change_status[OF assms, of p st] show ?thesis by simp
  next
    case (IceCandidateEvent p cand)
    with c show ?thesis by (simp add: onicecandidate_def split: if_splits option.splits)
  next
    case (TrackEvent p stream)
    with c show ?thesis by (simp add: ontrack_def split: if_splits)
  qed
  have second: "callStatus (step (Socket (AnswerMade ans) True) s) = callStatus s
        \<and> remoteDescription (pcs (step (Socket (AnswerMade ans) True) s) ! p) = Some ans"
    if r: "peerManagerRef s = Some m" and q: "pc (managers s ! m) = Some p"
      and h: "signalingState (pcs s ! p) = HaveLocalOffer" for m p ans
  proof -
    have m: "m < length (managers s)" by (rule wf_ref[OF assms r])
    have p: "p < length (pcs s)" using wf_pc[OF assms m q] by simp
    from r q h p show ?thesis
      by (simp add: handleAnswer_def pc_setRemoteDescription_def update_pc_nth)
  qed
  have third: "callStatus (step (AnswerCall env) s) = Connected
             \<and> iceConnectionState (pcs (step (AnswerCall env) s) ! length (pcs s)) = IceNew
             \<and> remoteDescription (pcs (step (AnswerCall env) s) ! length (pcs s)) = Some (offer inc)
             \<and> emitted (step (AnswerCall env) s)
                 = emitted s @ [AnswerCallOut (Some d) (callerId inc)]"
    if "incomingCallData s = Some inc" "callStatus s = IncomingCall"
      "localStream s \<noteq> None \<or> userMedia env \<noteq> None" "callerId inc \<noteq> []"
      "remoteAccepted env" "description env = Some d" "localAccepted env" for inc d
    using answerCall_success[OF that] by simp
  have fourth: "callStatus (step (IceConnectionStateChange p IceConnected) s) = Connected"
    if "fires p s" for p
    by (rule ice_connected_report[OF assms that])
  from first second third fourth show ?thesis by blast
qed

text \<open>
  Witness for C6: the answer intent in \<open>ringing\<close> makes the status \<open>Connected\<close> while the
  new connection is in the ICE state \<open>new\<close>; the report \<open>connected\<close> in \<open>answered\<close> makes
  the status \<open>Connected\<close>; the answer applied in \<open>waiting\<close> leaves it \<open>WaitingForAnswer\<close>.
\<close>

theorem connected_only_by_transport_or_answer_witness:
  "callStatus ringing \<noteq> Connected
   \<and> callStatus (step (AnswerCall browser_ok) ringing) = Connected
   \<and> iceConnectionState (pcs (step (AnswerCall browser_ok) ringing) ! 0) = IceNew
   \<and> emitted (step (AnswerCall browser_ok) ringing) = [AnswerCallOut (Some ''sdp'') ''A'']
   \<and> callStatus answered \<noteq> Connected
   \<and> callStatus (step (IceConnectionStateChange 0 IceConnected) answered) = Connected
   \<and> callStatus (step (Socket (AnswerMade ''ans'') True) waiting) = WaitingForAnswer
   \<and> remoteDescription (pcs (step (Socket (AnswerMade ''ans'') True) waiting) ! 0) = Some ''ans''"
proof -
  have r: "wf ringing" "incomingCallData ringing = Some \<lparr>offer = ''off'', callerId = ''A''\<rparr>"
    "callStatus ringing = IncomingCall" "userMedia browser_ok \<noteq> None"
    "remoteAccepted browser_ok" "description browser_ok = Some ''sdp''" "localAccepted browser_ok"
    "pcs ringing = []" "emitted ringing = []"
    by code_simp+
  have a: "wf answered" "fires 0 answered" "callStatus answered \<noteq> Connected"
    by code_simp+
  have w: "wf waiting" "peerManagerRef waiting = Some 0" "pc (managers waiting ! 0) = Some 0"
    "signalingState (pcs waiting ! 0) = HaveLocalOffer" "callStatus waiting = WaitingForAnswer"
    by code_simp+
  from connected_only_by_transport_or_answer[OF r(1), where env = browser_ok
         and e = "AnswerCall browser_ok"]
       connected_only_by_transport_or_answer[OF a(1), where env = browser_ok
         and e = "IceConnectionStateChange 0 IceConnected"]
       connected_only_by_transport_or_answer[OF w(1), where env = browser_ok
         and e = "AnswerCall browser_ok"]
       r a w
  show ?thesis by simp
qed

subsection \<open>C7: a second answer\<close>

text \<open>
  C7 says: a second inbound CallAnswer for a session whose remote description is set is
  ignored: the call is not aborted, the status does not change, the remote description
  is not mutated.

  Counterexample to C7: in \<open>answered\<close> the remote description is set and the status is
  \<open>WaitingForAnswer\<close>; a second answer makes the status \<open>CallFailed\<close>.
\<close>

theorem second_answer_counterexample:
  "remoteDescription (pcs answered ! 0) = Some ''ans''
   \<and> callStatus answered = WaitingForAnswer
   \<and> callStatus (step (Socket (AnswerMade ''ans2'') True) answered) = CallFailed"
  by code_simp

text \<open>
  C7 as amended: \<^verbatim>\<open>handleAnswer\<close> has no check of its own; it hands every answer to
  the connection. For the session the component holds, once its remote description is
  set, the connection rejects a further answer, the rejection is caught and the status
  becomes \<open>CallFailed\<close>. The connections (so the stored remote description, and the
  session, which stays open), the managers and the messages sent are unchanged.
\<close>

theorem second_answer_fails_call:
  assumes "wf s" and "peerManagerRef s = Some m" and "pc (managers s ! m) = Some p"
    and "remoteDescription (pcs s ! p) \<noteq> None"
  shows "callStatus (socket_on (AnswerMade ans) ok s) = CallFailed
       \<and> pcs (socket_on (AnswerMade ans) ok s) = pcs s
       \<and> managers (socket_on (AnswerMade ans) ok s) = managers s
       \<and> peerManagerRef (socket_on (AnswerMade ans) ok s) = peerManagerRef s
       \<and> emitted (socket_on (AnswerMade ans) ok s) = emitted s"
proof -
  have m: "m < length (managers s)" by (rule wf_ref[OF assms(1,2)])
  have p: "p < length (pcs s)" using wf_pc[OF assms(1) m assms(3)] by simp
  have "signalingState (pcs s ! p) \<noteq> HaveLocalOffer"
    using wf_offer[OF assms(1) p] assms(4) by auto
  with assms(2,3) show ?thesis
    by (simp add: handleAnswer_def pc_setRemoteDescription_def)
qed

text \<open>Witness for C7: a second answer in \<open>answered\<close>.\<close>

theorem second_answer_fails_call_witness:
  "callStatus (socket_on (AnswerMade ''ans2'') True answered) = CallFailed
   \<and> remoteDescription (pcs (socket_on (AnswerMade ''ans2'') True answered) ! 0) = Some ''ans''"
proof -
  have a: "wf answered" "peerManagerRef answered = Some 0" "pc (managers answered ! 0) = Some 0"
    "remoteDescription (pcs answered ! 0) \<noteq> None" "remoteDescription (pcs answered ! 0) = Some ''ans''"
    by code_simp+
  from second_answer_fails_call[OF a(1,2,3,4), of "''ans2''" True] a(5) show ?thesis by simp
qed

subsection \<open>C8: media access denied\<close>

text \<open>
  C8: when the acquisition of the local media is denied, the status becomes
  \<open>MediaAccessDenied\<close> and no Transport Session is created, for the start intent and for
  the answer intent. The media are acquired when the component has no local stream and
  the intent passes its guards (a target and a status other than \<open>Connected\<close> and
  \<open>WaitingForAnswer\<close> for start; a pending offer and the status \<open>IncomingCall\<close> for answer).
  Then no manager and no connection is created, the reference is unchanged and nothing
  is sent.
\<close>

theorem media_denied_no_transport_session:
  assumes "userMedia env = None" and "localStream s = None"
  shows "(targetId s \<noteq> [] \<and> callStatus s \<noteq> Connected \<and> callStatus s \<noteq> WaitingForAnswer \<longrightarrow>
            callStatus (startCall env s) = MediaAccessDenied
            \<and> pcs (startCall env s) = pcs s
            \<and> managers (startCall env s) = managers s
            \<and> peerManagerRef (startCall env s) = peerManagerRef s
            \<and> emitted (startCall env s) = emitted s)
       \<and> (incomingCallData s \<noteq> None \<and> callStatus s = IncomingCall \<longrightarrow>
            callStatus (answerCall env s) = MediaAccessDenied
            \<and> pcs (answerCall env s) = pcs s
            \<and> managers (answerCall env s) = managers s
            \<and> peerManagerRef (answerCall env s) = peerManagerRef s
            \<and> emitted (answerCall env s) = emitted s)"
  using assms
  by (auto simp: startCall_def answerCall_def stream_or_getMedia_def getMedia_def)

text \<open>
  Witness for C8: a start towards \<open>B\<close> from the initial state and an answer in \<open>ringing\<close>,
  both with the browser that refuses the media.
\<close>

theorem media_denied_no_transport_session_witness:
  "callStatus (startCall browser_denied (step (SetTargetId ''B'') init)) = MediaAccessDenied
   \<and> pcs (startCall browser_denied (step (SetTargetId ''B'') init)) = []
   \<and> callStatus (answerCall browser_denied ringing) = MediaAccessDenied
   \<and> pcs (answerCall browser_denied ringing) = []"
proof -
  have e: "userMedia browser_denied = None" by code_simp
  have a: "localStream (step (SetTargetId ''B'') init) = None"
    "targetId (step (SetTargetId ''B'') init) \<noteq> []"
    "callStatus (step (SetTargetId ''B'') init) \<noteq> Connected"
    "callStatus (step (SetTargetId ''B'') init) \<noteq> WaitingForAnswer"
    "pcs (step (SetTargetId ''B'') init) = []"
    by code_simp+
  have b: "localStream ringing = None" "incomingCallData ringing \<noteq> None"
    "callStatus ringing = IncomingCall" "pcs ringing = []"
    by code_simp+
  from media_denied_no_transport_session[OF e a(1)] a
       media_denied_no_transport_session[OF e b(1)] b
  show ?thesis by simp
qed

subsection \<open>C9: an inbound offer\<close>

text \<open>
  C9 says: an offer received in \<open>Idle\<close> gives \<open>IncomingCall\<close> and is stored with its sender;
  \<open>Idle\<close> is the only status from which a received offer changes the status; the pending
  offer is held only while the status is \<open>IncomingCall\<close>.

  Counterexample to C9: an offer received in the connected call changes the status from
  \<open>Connected\<close> to \<open>IncomingCall\<close>; and an answer in \<open>ringing\<close> whose media are refused gives
  the status \<open>MediaAccessDenied\<close> with the offer still pending.
\<close>

theorem offer_outside_Idle_counterexample:
  "callStatus connected = Connected
   \<and> callStatus (step (Socket (CallMade ''off'' ''C'') True) connected) = IncomingCall
   \<and> callStatus (step (AnswerCall browser_denied) ringing) = MediaAccessDenied
   \<and> incomingCallData (step (AnswerCall browser_denied) ringing)
       = Some \<lparr>offer = ''off'', callerId = ''A''\<rparr>"
  by code_simp

text \<open>
  C9 as amended: the handler of \<^verbatim>\<open>call-made\<close> has no guard. In every status (\<open>Idle\<close>
  among them) a received offer sets the status \<open>IncomingCall\<close> and stores the offer and its
  sender as the pending offer, in place of an earlier one. The pending offer is cleared
  by reject, by end, and by an answer that passes its guards and gets a local stream.
\<close>

theorem call_made_any_status:
  "callStatus (socket_on (CallMade off caller) ok s) = IncomingCall
   \<and> incomingCallData (socket_on (CallMade off caller) ok s) = Some \<lparr>offer = off, callerId = caller\<rparr>
   \<and> incomingCallData (rejectCall s) = None
   \<and> incomingCallData (endCall s) = None
   \<and> (incomingCallData s \<noteq> None \<and> callStatus s = IncomingCall
        \<and> (localStream s \<noteq> None \<or> userMedia env \<noteq> None) \<longrightarrow>
      incomingCallData (answerCall env s) = None)"
  by (auto simp: rejectCall_def endCall_fields answerCall_def Let_def stream_or_getMedia_def
        getMedia_def split: option.splits)

text \<open>Witness for C9: the offer of \<open>A\<close> in the initial state, then answered.\<close>

theorem call_made_any_status_witness:
  "callStatus (socket_on (CallMade ''off'' ''A'') True init) = IncomingCall
   \<and> incomingCallData (answerCall browser_ok ringing) = None"
proof -
  have b: "incomingCallData ringing \<noteq> None" "callStatus ringing = IncomingCall"
    "userMedia browser_ok \<noteq> None"
    by code_simp+
  from call_made_any_status[of "''off''" "''A''" True init browser_ok]
       call_made_any_status[of "''off''" "''A''" True ringing browser_ok] b
  show ?thesis by simp
qed

subsection \<open>C10: start with an empty target\<close>

text \<open>
  C10: the start intent with an empty target identifier sets the status \<open>Idle\<close>, whatever
  the status was, creates no manager and no connection, and sends nothing.
\<close>

theorem startCall_empty_target:
  assumes "targetId s = []"
  shows "callStatus (startCall env s) = Idle
       \<and> statusLog (startCall env s) = statusLog s @ [Idle]
       \<and> pcs (startCall env s) = pcs s
       \<and> managers (startCall env s) = managers s
       \<and> peerManagerRef (startCall env s) = peerManagerRef s
       \<and> emitted (startCall env s) = emitted s
       \<and> incomingCallData (startCall env s) = incomingCallData s
       \<and> localStream (startCall env s) = localStream s"
  using assms by (simp add: startCall_def)

text \<open>Witness for C10: in \<open>ringing\<close> the target is empty and the status is \<open>IncomingCall\<close>.\<close>

theorem startCall_empty_target_witness:
  "callStatus ringing = IncomingCall
   \<and> callStatus (startCall browser_ok ringing) = Idle
   \<and> pcs (startCall browser_ok ringing) = []
   \<and> emitted (startCall browser_ok ringing) = []"
proof -
  have b: "targetId ringing = []" "callStatus ringing = IncomingCall" "pcs ringing = []"
    "emitted ringing = []"
    by code_simp+
  from startCall_empty_target[OF b(1), of browser_ok] b show ?thesis by simp
qed

end
